theory Spec2Isabelle
  imports Main
begin

section \<open>Role name mapping\<close>

text \<open>
  The Go struct \<^verbatim>\<open>type Role struct { Type string }\<close> is a datatype with one
  string field. \<^verbatim>\<open>validRoles\<close> returns the list of the user-facing role tokens.
\<close>

datatype Role = Role (Type: string)

definition validRoles :: "string list" where
  "validRoles =
    [''admin_attributes'', ''admin_branch_perms'', ''admin_groups'', ''admin_projects'',
     ''admin_schedules'', ''admin_system'', ''admin_users'', ''admin_webhooks'',
     ''author'', ''edit_projects'', ''run_caching'', ''run_event_store'',
     ''run_featuregen'', ''run_monitoring'', ''super_user'', ''view_reports'']"

text \<open>
  \<^verbatim>\<open>mapRolesToBackend\<close> and \<^verbatim>\<open>mapRolesToFrontend\<close> are loops over the
  input slice that append to the result slice \<^verbatim>\<open>vs\<close>; the body is an
  if / else-if chain with no final else, so an element that matches no branch leaves
  \<^verbatim>\<open>vs\<close> as it is. The loops are written with the slice under construction as
  an accumulator.
\<close>

fun mapRolesToBackend_loop :: "Role list \<Rightarrow> string list \<Rightarrow> Role list" where
  "mapRolesToBackend_loop vs [] = vs"
| "mapRolesToBackend_loop vs (v # rest) =
    mapRolesToBackend_loop
      (if v = ''admin_attributes'' then vs @ [Role ''adminattributes'']
       else if v = ''admin_branch_perms'' then vs @ [Role ''adminbranchperms'']
       else if v = ''admin_groups'' then vs @ [Role ''admingroups'']
       else if v = ''admin_projects'' then vs @ [Role ''adminprojects'']
       else if v = ''admin_schedules'' then vs @ [Role ''adminschedules'']
       else if v = ''admin_system'' then vs @ [Role ''adminsystem'']
       else if v = ''admin_users'' then vs @ [Role ''adminusers'']
       else if v = ''admin_webhooks'' then vs @ [Role ''adminwebhooks'']
       else if v = ''author'' then vs @ [Role ''author'']
       else if v = ''edit_projects'' then vs @ [Role ''editprojects'']
       else if v = ''run_caching'' then vs @ [Role ''runcaching'']
       else if v = ''run_event_store'' then vs @ [Role ''runeventstore'']
       else if v = ''run_featuregen'' then vs @ [Role ''runfeaturegen'']
       else if v = ''run_monitoring'' then vs @ [Role ''runmonitoring'']
       else if v = ''super_user'' then vs @ [Role ''superuser'']
       else if v = ''view_reports'' then vs @ [Role ''viewreports'']
       else vs)
      rest"

definition mapRolesToBackend :: "string list \<Rightarrow> Role list" where
  "mapRolesToBackend frontend = mapRolesToBackend_loop [] frontend"

fun mapRolesToFrontend_loop :: "string list \<Rightarrow> Role list \<Rightarrow> string list" where
  "mapRolesToFrontend_loop vs [] = vs"
| "mapRolesToFrontend_loop vs (v # rest) =
    mapRolesToFrontend_loop
      (if Type v = ''adminattributes'' then vs @ [''admin_attributes'']
       else if Type v = ''adminbranchperms'' then vs @ [''admin_branch_perms'']
       else if Type v = ''admingroups'' then vs @ [''admin_groups'']
       else if Type v = ''adminprojects'' then vs @ [''admin_projects'']
       else if Type v = ''adminschedules'' then vs @ [''admin_schedules'']
       else if Type v = ''adminsystem'' then vs @ [''admin_system'']
       else if Type v = ''adminusers'' then vs @ [''admin_users'']
       else if Type v = ''adminwebhooks'' then vs @ [''admin_webhooks'']
       else if Type v = ''author'' then vs @ [''author'']
       else if Type v = ''editprojects'' then vs @ [''edit_projects'']
       else if Type v = ''runcaching'' then vs @ [''run_caching'']
       else if Type v = ''runevent_store'' then vs @ [''run_event_store'']
       else if Type v = ''runfeaturegen'' then vs @ [''run_featuregen'']
       else if Type v = ''runmonitoring'' then vs @ [''run_monitoring'']
       else if Type v = ''superuser'' then vs @ [''super_user'']
       else if Type v = ''viewreports'' then vs @ [''view_reports'']
       else vs)
      rest"

definition mapRolesToFrontend :: "Role list \<Rightarrow> string list" where
  "mapRolesToFrontend backend = mapRolesToFrontend_loop [] backend"

section \<open>Values, errors and the resource data of the plugin host\<close>

text \<open>
  A Go \<^verbatim>\<open>interface{}\<close> value as the provider handles it: nil, a string, an int,
  a bool, a non-nil pointer to a value, a slice \<^verbatim>\<open>[]interface{}\<close>, or a map
  \<^verbatim>\<open>map[string]interface{}\<close>. A Go map is a finite partial function from keys
  to values; reading a missing key gives nil.
\<close>

datatype tfval =
    VNil
  | VStr string
  | VInt int
  | VBool bool
  | VPtr tfval
  | VList "tfval list"
  | VMap "string \<Rightarrow> tfval option"

type_synonym tfmap = "string \<Rightarrow> tfval option"

definition index :: "tfmap \<Rightarrow> string \<Rightarrow> tfval" where
  "index m k = (case m k of None \<Rightarrow> VNil | Some v \<Rightarrow> v)"

text \<open>
  Every way a call can end without a value: a run-time panic (a failed type assertion
  \<^verbatim>\<open>x.(T)\<close> or a nil dereference), \<^verbatim>\<open>errors.New(msg)\<close>,
  \<^verbatim>\<open>fmt.Errorf(format, value)\<close>, and the error of \<^verbatim>\<open>d.Set\<close> on a key
  that the resource schema does not declare.
\<close>

datatype error =
    Panic
  | ErrorsNew string
  | FmtErrorf string tfval
  | SetError string

definition bindE :: "error + 'a \<Rightarrow> ('a \<Rightarrow> error + 'b) \<Rightarrow> error + 'b" where
  "bindE m f = (case m of Inl e \<Rightarrow> Inl e | Inr x \<Rightarrow> f x)"

text \<open>The panicking type assertions \<^verbatim>\<open>x.(string)\<close> and \<^verbatim>\<open>x.([]interface{})\<close>.\<close>

definition assertString :: "tfval \<Rightarrow> error + string" where
  "assertString x = (case x of VStr s \<Rightarrow> Inr s | _ \<Rightarrow> Inl Panic)"

definition assertList :: "tfval \<Rightarrow> error + tfval list" where
  "assertList x = (case x of VList xs \<Rightarrow> Inr xs | _ \<Rightarrow> Inl Panic)"

text \<open>The comma-ok type assertions \<^verbatim>\<open>v, ok := x.(string)\<close> and \<^verbatim>\<open>x.(bool)\<close>.\<close>

definition okString :: "tfval \<Rightarrow> string option" where
  "okString x = (case x of VStr s \<Rightarrow> Some s | _ \<Rightarrow> None)"

definition okBool :: "tfval \<Rightarrow> bool option" where
  "okBool x = (case x of VBool b \<Rightarrow> Some b | _ \<Rightarrow> None)"

text \<open>
  \<^verbatim>\<open>schema.ResourceData\<close> of the plugin SDK: the resource id, the schema of the
  resource (the type of each declared key) and the values written so far.
  \<^verbatim>\<open>d.Get(key)\<close> returns the stored value, or the zero value of the key's type
  when nothing (or nil) is stored; \<^verbatim>\<open>d.GetOk\<close> also tells whether that value
  differs from the zero value; \<^verbatim>\<open>d.Set(key, value)\<close> fails on a key the schema
  does not declare and otherwise stores the value, a pointer being replaced by what it
  points to; \<^verbatim>\<open>d.SetId\<close> cannot fail. Sets are kept as lists.
\<close>

datatype ValueType = TypeBool | TypeInt | TypeString | TypeList | TypeMap | TypeSet

fun zeroValue :: "ValueType \<Rightarrow> tfval" where
  "zeroValue TypeBool = VBool False"
| "zeroValue TypeInt = VInt 0"
| "zeroValue TypeString = VStr []"
| "zeroValue TypeList = VList []"
| "zeroValue TypeMap = VMap Map.empty"
| "zeroValue TypeSet = VList []"

record ResourceData =
  Id :: string
  schema :: "string \<Rightarrow> ValueType option"
  attrs :: "string \<Rightarrow> tfval option"

definition dGet :: "ResourceData \<Rightarrow> string \<Rightarrow> tfval" where
  "dGet d key =
    (case schema d key of
       None \<Rightarrow> VNil
     | Some t \<Rightarrow>
        (case attrs d key of
           None \<Rightarrow> zeroValue t
         | Some v \<Rightarrow> (if v = VNil then zeroValue t else v)))"

definition isZero :: "tfval \<Rightarrow> bool" where
  "isZero v =
    (case v of
       VNil \<Rightarrow> True
     | VStr s \<Rightarrow> s = []
     | VInt i \<Rightarrow> i = 0
     | VBool b \<Rightarrow> \<not> b
     | VPtr p \<Rightarrow> False
     | VList xs \<Rightarrow> xs = []
     | VMap m \<Rightarrow> m = Map.empty)"

definition dGetOk :: "ResourceData \<Rightarrow> string \<Rightarrow> tfval \<times> bool" where
  "dGetOk d key = (dGet d key, \<not> isZero (dGet d key))"

definition deref :: "tfval \<Rightarrow> tfval" where
  "deref v = (case v of VPtr p \<Rightarrow> p | _ \<Rightarrow> v)"

definition dSet :: "ResourceData \<Rightarrow> string \<Rightarrow> tfval \<Rightarrow> ResourceData \<times> error option" where
  "dSet d key v =
    (case schema d key of
       None \<Rightarrow> (d, Some (SetError key))
     | Some t \<Rightarrow> (d\<lparr>attrs := (attrs d)(key \<mapsto> deref v)\<rparr>, None))"

definition SetId :: "ResourceData \<Rightarrow> string \<Rightarrow> ResourceData" where
  "SetId d v = d\<lparr>Id := v\<rparr>"

text \<open>
  A Read operation mutates the resource data in place and returns an error or nil: it is
  a function to the final resource data and the error. \<open>andThen\<close> is the statement
  \<^verbatim>\<open>if err := step; err != nil { return err }\<close> followed by the rest of the body.
\<close>

definition andThen ::
  "ResourceData \<times> error option \<Rightarrow> (ResourceData \<Rightarrow> ResourceData \<times> error option)
    \<Rightarrow> ResourceData \<times> error option" where
  "andThen r rest = (case snd r of None \<Rightarrow> rest (fst r) | Some e \<Rightarrow> r)"

section \<open>structure.go: lists of identifiers\<close>

text \<open>
  \<^verbatim>\<open>strconv.Atoi\<close> and \<^verbatim>\<open>strconv.Itoa\<close> of the Go standard library, for the
  64-bit \<^verbatim>\<open>int\<close>. \<^verbatim>\<open>Atoi\<close> reads an optional sign and then decimal digits.
  On a syntax error it returns 0 with the error; on a value out of range it returns the
  nearest bound with the error (the unsigned scan stops at the digit that overflows).
\<close>

datatype NumError = ErrSyntax | ErrRange

definition digitOf :: "char \<Rightarrow> nat option" where
  "digitOf c =
    (let b = (of_char c :: nat) in if 48 \<le> b \<and> b \<le> 57 then Some (b - 48) else None)"

definition maxUint64 :: nat where
  "maxUint64 = 18446744073709551615"

fun ParseUint_loop :: "nat \<Rightarrow> string \<Rightarrow> nat \<times> NumError option" where
  "ParseUint_loop n [] = (n, None)"
| "ParseUint_loop n (c # cs) =
    (case digitOf c of
       None \<Rightarrow> (0, Some ErrSyntax)
     | Some d \<Rightarrow>
        if maxUint64 div 10 + 1 \<le> n then (maxUint64, Some ErrRange)
        else if maxUint64 < n * 10 + d then (maxUint64, Some ErrRange)
        else ParseUint_loop (n * 10 + d) cs)"

definition ParseUint :: "string \<Rightarrow> nat \<times> NumError option" where
  "ParseUint s = (if s = [] then (0, Some ErrSyntax) else ParseUint_loop 0 s)"

definition ParseInt :: "string \<Rightarrow> int \<times> NumError option" where
  "ParseInt s =
    (if s = [] then (0, Some ErrSyntax)
     else
       let neg = (hd s = CHR ''-'');
           rest = (if hd s = CHR ''+'' \<or> hd s = CHR ''-'' then tl s else s);
           un = fst (ParseUint rest);
           err = snd (ParseUint rest)
       in if err = Some ErrSyntax then (0, err)
          else if \<not> neg \<and> 9223372036854775808 \<le> un
            then (9223372036854775807, Some ErrRange)
          else if neg \<and> 9223372036854775808 < un
            then (- 9223372036854775808, Some ErrRange)
          else (if neg then - int un else int un, None))"

definition Atoi :: "string \<Rightarrow> int \<times> NumError option" where
  "Atoi s = ParseInt s"

definition digits :: string where
  "digits = ''0123456789''"

fun formatDecimal :: "nat \<Rightarrow> string" where
  "formatDecimal n =
    (if n < 10 then [digits ! n]
     else formatDecimal (n div 10) @ [digits ! (n mod 10)])"

declare formatDecimal.simps [simp del]

definition Itoa :: "int \<Rightarrow> string" where
  "Itoa i = (if i < 0 then CHR ''-'' # formatDecimal (nat (- i)) else formatDecimal (nat i))"

text \<open>
  \<^verbatim>\<open>expandIdentifierList\<close>: for each element, the comma-ok assertion to string; a
  non-empty string is converted with \<^verbatim>\<open>Atoi\<close>, whose error is discarded
  (\<^verbatim>\<open>vv, _ := strconv.Atoi(...)\<close>), and the value is appended.
\<close>

fun expandIdentifierList_loop :: "int list \<Rightarrow> tfval list \<Rightarrow> int list" where
  "expandIdentifierList_loop vs [] = vs"
| "expandIdentifierList_loop vs (v # rest) =
    expandIdentifierList_loop
      (case okString v of
         Some val \<Rightarrow> if val \<noteq> [] then vs @ [fst (Atoi val)] else vs
       | None \<Rightarrow> vs)
      rest"

definition expandIdentifierList :: "tfval list \<Rightarrow> int list" where
  "expandIdentifierList configured = expandIdentifierList_loop [] configured"

definition expandSingleMap :: "tfval \<Rightarrow> error + tfmap" where
  "expandSingleMap v =
    (case v of
       VNil \<Rightarrow> Inl (ErrorsNew ''Value is null'')
     | VList array \<Rightarrow>
        (case array of
           [] \<Rightarrow> Inl (ErrorsNew ''Array is empty'')
         | first # _ \<Rightarrow>
            (case first of
               VMap single \<Rightarrow> Inr single
             | _ \<Rightarrow> Inl (FmtErrorf ''Value at index 0 of array is not a map. Value: %v'' first)))
     | _ \<Rightarrow> Inl (FmtErrorf ''Value is not an array. Value: %v'' v))"

fun identifierList_loop :: "string list \<Rightarrow> int list \<Rightarrow> string list" where
  "identifierList_loop vs [] = vs"
| "identifierList_loop vs (v # rest) = identifierList_loop (vs @ [Itoa v]) rest"

definition identifierList :: "int list \<Rightarrow> string list" where
  "identifierList ints = identifierList_loop [] ints"

section \<open>The wire records\<close>

text \<open>
  The JSON structs of the backend. A pointer field is an option, a slice is a list (a
  nil slice is the empty list), a \<^verbatim>\<open>map[string]string\<close> is a partial function.
  The zero value of a struct, which a Go struct literal gives to every field it does not
  mention, is written out for the structs the provider builds.
\<close>

record Attribute =
  Key :: string
  Value :: string

record Entity =
  ID :: int
  Name :: string
  Description :: string
  Type :: string
  DefaultColumn :: "string option"
  RequiredType :: "tfval option"
  Entities :: "int list option"
  Labels :: "string list"
  Attributes :: "Attribute list"

definition zeroEntity :: Entity where
  "zeroEntity =
    \<lparr> Entity.ID = 0, Name = [], Description = [], Type = [], DefaultColumn = None,
      RequiredType = None, Entities = None, Labels = [], Attributes = [] \<rparr>"

record SecretValueConfig =
  Type :: string
  Secret :: string
  FilePath :: string
  SecretProject :: string
  SecretId :: string

record SensitiveAttribute =
  Key :: string
  ValueConfig :: "SecretValueConfig option"

record FileFormat =
  Type :: string
  Sep :: "string option"
  QuoteAll :: "bool option"
  IncludeHeader :: "bool option"
  EmptyValue :: "string option"
  Compression :: "string option"
  DateFormat :: "string option"
  TimestampFormat :: "string option"
  IgnoreLeadingWhiteSpace :: "bool option"
  IgnoreTrailingWhiteSpace :: "bool option"
  LineSep :: "string option"

definition zeroFileFormat :: FileFormat where
  "zeroFileFormat =
    \<lparr> FileFormat.Type = [], Sep = None, QuoteAll = None, IncludeHeader = None,
      EmptyValue = None, Compression = None, DateFormat = None, TimestampFormat = None,
      IgnoreLeadingWhiteSpace = None, IgnoreTrailingWhiteSpace = None, LineSep = None \<rparr>"

record PrincipalId =
  ID :: int
  Type :: string

record MaskingRule =
  Type :: string
  Expression :: string
  Column :: string

record AccessRule =
  Resource :: string
  Principals :: "PrincipalId list"
  MaskingRules :: "MaskingRule list"

record LoginCredentialsProviderConfig =
  Type :: string
  Username :: string
  Password :: string
  FilePath :: string
  PasswordSecretProject :: string
  PasswordSecretId :: string

record Source =
  ID :: int
  Name :: string
  Description :: string
  Type :: string
  Bucket :: string
  Path :: string
  FileFormat :: "FileFormat option"
  Endpoint :: string
  AccessKey :: string
  SecretKey :: string
  URL :: string
  Schema :: string
  CredentialsProvider :: "LoginCredentialsProviderConfig option"
  Database :: string
  BootstrapServers :: string
  SchemaRegistryURL :: string
  KafkaProperties :: "SensitiveAttribute list"
  Labels :: "string list"
  Attributes :: "Attribute list"
  Warehouse :: string
  AccessRules :: "AccessRule list"

definition zeroSource :: Source where
  "zeroSource =
    \<lparr> Source.ID = 0, Name = [], Description = [], Type = [], Bucket = [], Path = [],
      FileFormat = None, Endpoint = [], AccessKey = [], SecretKey = [], URL = [],
      Schema = [], CredentialsProvider = None, Database = [], BootstrapServers = [],
      SchemaRegistryURL = [], KafkaProperties = [], Labels = [], Attributes = [],
      Warehouse = [], AccessRules = [] \<rparr>"

record SparkConfig =
  EnableHiveSupport :: bool
  HiveMetastoreURL :: string
  AdditionalSparkProperties :: "string \<Rightarrow> string option"

record PropertySet =
  ID :: "int option"
  Name :: string
  AdditionalSparkProperties :: "string \<Rightarrow> string option"

record Cluster =
  ID :: int
  Name :: string
  Description :: string
  Type :: string
  IsPreviewCluster :: bool
  AnamlServerURL :: string
  SparkServerURL :: string
  CredentialsProvider :: "LoginCredentialsProviderConfig option"
  SparkConfig :: "SparkConfig option"
  PropertySet :: "PropertySet list"
  Labels :: "string list"
  Attributes :: "Attribute list"

section \<open>Collaborators defined in other files of the provider\<close>

text \<open>
  The HTTP client and the helper functions below are defined in other files of the
  provider. They are parameters of the model: nothing is assumed about what they compute,
  only their types. A Go result \<^verbatim>\<open>(*T, error)\<close> is an error or an optional record.
\<close>

record Client =
  GetEntity :: "string \<Rightarrow> error + Entity option"
  GetSource :: "string \<Rightarrow> error + Source option"
  FindCluster :: "string \<Rightarrow> error + Cluster option"

record helpers =
  expandLabels :: "ResourceData \<Rightarrow> string list"
  expandAttributes :: "ResourceData \<Rightarrow> Attribute list"
  flattenAttributes :: "Attribute list \<Rightarrow> tfval"
  expandPrincipalIds :: "tfval list \<Rightarrow> error + PrincipalId list"
  flattenPrincipalIds :: "PrincipalId list \<Rightarrow> tfval"
  composeLoginCredentialsProviderConfig ::
    "tfmap \<Rightarrow> error + LoginCredentialsProviderConfig option"
  parseLoginCredentialsProviderConfig ::
    "LoginCredentialsProviderConfig option \<Rightarrow> error + tfmap"
  composeSensitiveAttribute :: "tfmap \<Rightarrow> error + SensitiveAttribute option"
  parseSensitiveAttribute :: "SensitiveAttribute \<Rightarrow> error + tfmap"

section \<open>resource\_entity.go\<close>

text \<open>The keys and types of \<^verbatim>\<open>ResourceEntity().Schema\<close>.\<close>

definition ResourceEntity_Schema :: "string \<Rightarrow> ValueType option" where
  "ResourceEntity_Schema =
    map_of
      [(''name'', TypeString), (''description'', TypeString),
       (''default_column'', TypeString), (''required_type'', TypeString),
       (''entities'', TypeList), (''labels'', TypeSet), (''attribute'', TypeSet)]"

definition resourceEntityRead ::
  "helpers \<Rightarrow> Client \<Rightarrow> ResourceData \<Rightarrow> ResourceData \<times> error option" where
  "resourceEntityRead h c d =
    (case GetEntity c (Id d) of
       Inl err \<Rightarrow> (d, Some err)
     | Inr None \<Rightarrow> (SetId d [], None)
     | Inr (Some entity) \<Rightarrow>
        andThen (dSet d ''name'' (VStr (Entity.Name entity))) (\<lambda>d.
        andThen (dSet d ''description'' (VStr (Entity.Description entity))) (\<lambda>d.
        andThen
          (case Entity.DefaultColumn entity of
             None \<Rightarrow> (d, None)
           | Some default_column \<Rightarrow>
              andThen (dSet d ''default_column'' (VPtr (VStr default_column))) (\<lambda>d.
              andThen
                (case Entity.RequiredType entity of
                   Some derefed \<Rightarrow>
                    (case okString derefed of
                       Some requiredTypeString \<Rightarrow>
                        dSet d ''required_type'' (VStr requiredTypeString)
                     | None \<Rightarrow> dSet d ''required_type'' (VStr ''Complex Type''))
                 | None \<Rightarrow> dSet d ''required_type'' VNil) (\<lambda>d.
              dSet d ''entities'' VNil))) (\<lambda>d.
        andThen
          (case Entity.Entities entity of
             None \<Rightarrow> (d, None)
           | Some entities \<Rightarrow>
              andThen (dSet d ''default_column'' VNil) (\<lambda>d.
              andThen (dSet d ''required_type'' VNil) (\<lambda>d.
              dSet d ''entities'' (VList (map VStr (identifierList entities)))))) (\<lambda>d.
        andThen (dSet d ''labels'' (VList (map VStr (Entity.Labels entity)))) (\<lambda>d.
        dSet d ''attribute'' (flattenAttributes h (Entity.Attributes entity))))))))"

text \<open>
  \<^verbatim>\<open>buildEntity\<close> returns an \<^verbatim>\<open>Entity\<close>; the only way it can end without one is
  a panic of a type assertion on a value read from the configuration.
\<close>

definition buildEntity :: "helpers \<Rightarrow> ResourceData \<Rightarrow> error + Entity" where
  "buildEntity h d =
    bindE (assertString (dGet d ''name'')) (\<lambda>name.
    bindE (assertString (dGet d ''description'')) (\<lambda>description.
    let entity = zeroEntity
          \<lparr> Entity.Name := name, Entity.Description := description,
            Entity.Labels := expandLabels h d, Entity.Attributes := expandAttributes h d \<rparr>
    in
    bindE (assertString (dGet d ''default_column'')) (\<lambda>default_column.
    if default_column \<noteq> [] then
      let entity = entity
            \<lparr> Entity.Type := ''base'', Entity.DefaultColumn := Some default_column \<rparr>
      in
      (case dGetOk d ''required_type'' of
         (required_type, isSet) \<Rightarrow>
           if isSet then Inr (entity\<lparr> Entity.RequiredType := Some required_type \<rparr>)
           else Inr entity)
    else
      bindE (assertList (dGet d ''entities'')) (\<lambda>configured.
      Inr (entity
            \<lparr> Entity.Type := ''composite'',
              Entity.Entities := Some (expandIdentifierList configured) \<rparr>)))))"

section \<open>The cluster data source\<close>

definition DataSourceCluster_Schema :: "string \<Rightarrow> ValueType option" where
  "DataSourceCluster_Schema = map_of [(''name'', TypeString), (''description'', TypeString)]"

definition dataSourceClusterRead ::
  "Client \<Rightarrow> ResourceData \<Rightarrow> ResourceData \<times> error option" where
  "dataSourceClusterRead c d =
    (case assertString (dGet d ''name'') of
       Inl e \<Rightarrow> (d, Some e)
     | Inr name \<Rightarrow>
        (case FindCluster c name of
           Inl err \<Rightarrow> (d, Some err)
         | Inr None \<Rightarrow> (SetId d [], None)
         | Inr (Some cluster) \<Rightarrow>
            andThen (SetId d (Itoa (Cluster.ID cluster)), None) (\<lambda>d.
            andThen (dSet d ''name'' (VStr (Cluster.Name cluster))) (\<lambda>d.
            dSet d ''description'' (VStr (Cluster.Description cluster))))))"

section \<open>resource\_source.go: the schema and the flattener\<close>

text \<open>
  The keys and types of \<^verbatim>\<open>ResourceSource().Schema\<close>, and its list of mutually
  exclusive variant blocks (\<^verbatim>\<open>ExactlyOneOf\<close> of the key s3).
\<close>

definition ResourceSource_Schema :: "string \<Rightarrow> ValueType option" where
  "ResourceSource_Schema =
    map_of
      [(''name'', TypeString), (''description'', TypeString),
       (''s3'', TypeList), (''s3a'', TypeList), (''jdbc'', TypeList), (''hive'', TypeList),
       (''big_query'', TypeList), (''gcs'', TypeList), (''local'', TypeList),
       (''hdfs'', TypeList), (''kafka'', TypeList), (''snowflake'', TypeList),
       (''labels'', TypeSet), (''attribute'', TypeSet), (''access_rule'', TypeList)]"

definition ExactlyOneOf :: "string list" where
  "ExactlyOneOf =
    [''s3'', ''s3a'', ''jdbc'', ''hive'', ''big_query'', ''gcs'', ''local'', ''hdfs'',
     ''kafka'', ''snowflake'']"

text \<open>
  A pointer field stored into a map: the source stores the pointer when it is not nil and
  the untyped nil otherwise.
\<close>

definition ptrString :: "string option \<Rightarrow> tfval" where
  "ptrString p = (case p of None \<Rightarrow> VNil | Some s \<Rightarrow> VPtr (VStr s))"

definition ptrBool :: "bool option \<Rightarrow> tfval" where
  "ptrBool p = (case p of None \<Rightarrow> VNil | Some b \<Rightarrow> VPtr (VBool b))"

text \<open>\<^verbatim>\<open>parseFileFormat\<close> dereferences its argument at once: nil panics.\<close>

definition parseFileFormat :: "FileFormat option \<Rightarrow> error + tfmap" where
  "parseFileFormat fileFormat =
    (case fileFormat of
       None \<Rightarrow> Inl Panic
     | Some ff \<Rightarrow>
        (let fileFormatMap = [''file_format'' \<mapsto> VStr (FileFormat.Type ff)] in
         if FileFormat.Type ff = ''csv'' then
           Inr (fileFormatMap
                 (''compression'' \<mapsto> ptrString (Compression ff),
                  ''date_format'' \<mapsto> ptrString (DateFormat ff),
                  ''empty_value'' \<mapsto> ptrString (EmptyValue ff),
                  ''field_separator'' \<mapsto> ptrString (Sep ff),
                  ''ignore_leading_whitespace'' \<mapsto> ptrBool (IgnoreLeadingWhiteSpace ff),
                  ''ignore_trailing_whitespace'' \<mapsto> ptrBool (IgnoreTrailingWhiteSpace ff),
                  ''include_header'' \<mapsto> ptrBool (IncludeHeader ff),
                  ''quote_all'' \<mapsto> ptrBool (QuoteAll ff),
                  ''timestamp_format'' \<mapsto> ptrString (TimestampFormat ff),
                  ''line_separator'' \<mapsto> ptrString (LineSep ff)))
         else Inr fileFormatMap))"

text \<open>
  The parse functions return a one-element slice of maps. The loop
  \<^verbatim>\<open>for k, v := range fileFormat { s3[k] = v }\<close> is the right-biased union of maps.
\<close>

definition parseS3Source :: "Source option \<Rightarrow> error + tfval" where
  "parseS3Source source =
    (case source of
       None \<Rightarrow> Inl (ErrorsNew ''Source is null'')
     | Some src \<Rightarrow>
        bindE (parseFileFormat (Source.FileFormat src)) (\<lambda>fileFormat.
        Inr (VList [VMap ([''bucket'' \<mapsto> VStr (Bucket src), ''path'' \<mapsto> VStr (Path src)]
                           ++ fileFormat)])))"

definition parseS3ASource :: "Source option \<Rightarrow> error + tfval" where
  "parseS3ASource source =
    (case source of
       None \<Rightarrow> Inl (ErrorsNew ''Source is null'')
     | Some src \<Rightarrow>
        bindE (parseFileFormat (Source.FileFormat src)) (\<lambda>fileFormat.
        Inr (VList [VMap ([''bucket'' \<mapsto> VStr (Bucket src), ''path'' \<mapsto> VStr (Path src),
                            ''endpoint'' \<mapsto> VStr (Endpoint src),
                            ''access_key'' \<mapsto> VStr (AccessKey src),
                            ''secret_key'' \<mapsto> VStr (SecretKey src)]
                           ++ fileFormat)])))"

definition parseLocalSource :: "Source option \<Rightarrow> error + tfval" where
  "parseLocalSource source =
    (case source of
       None \<Rightarrow> Inl (ErrorsNew ''Source is null'')
     | Some src \<Rightarrow>
        bindE (parseFileFormat (Source.FileFormat src)) (\<lambda>fileFormat.
        Inr (VList [VMap ([''path'' \<mapsto> VStr (Path src)] ++ fileFormat)])))"

definition parseJDBCSource :: "helpers \<Rightarrow> Source option \<Rightarrow> error + tfval" where
  "parseJDBCSource h source =
    (case source of
       None \<Rightarrow> Inl (ErrorsNew ''Source is null'')
     | Some src \<Rightarrow>
        bindE (parseLoginCredentialsProviderConfig h (Source.CredentialsProvider src))
          (\<lambda>credentialsProvider.
        Inr (VList [VMap [''url'' \<mapsto> VStr (URL src), ''schema'' \<mapsto> VStr (Schema src),
                           ''credentials_provider'' \<mapsto> VList [VMap credentialsProvider]]])))"

definition parseBigQuerySource :: "Source option \<Rightarrow> error + tfval" where
  "parseBigQuerySource source =
    (case source of
       None \<Rightarrow> Inl (ErrorsNew ''Source is null'')
     | Some src \<Rightarrow> Inr (VList [VMap [''path'' \<mapsto> VStr (Path src)]]))"

definition parseHiveSource :: "Source option \<Rightarrow> error + tfval" where
  "parseHiveSource source =
    (case source of
       None \<Rightarrow> Inl (ErrorsNew ''Source is null'')
     | Some src \<Rightarrow> Inr (VList [VMap [''database'' \<mapsto> VStr (Database src)]]))"

fun parseSensitives :: "helpers \<Rightarrow> SensitiveAttribute list \<Rightarrow> error + tfval list" where
  "parseSensitives h [] = Inr []"
| "parseSensitives h (v # rest) =
    bindE (parseSensitiveAttribute h v) (\<lambda>sa.
    bindE (parseSensitives h rest) (\<lambda>sensitives.
    Inr (VMap sa # sensitives)))"

definition parseKafkaSource :: "helpers \<Rightarrow> Source option \<Rightarrow> error + tfval" where
  "parseKafkaSource h source =
    (case source of
       None \<Rightarrow> Inl (ErrorsNew ''Source is null'')
     | Some src \<Rightarrow>
        bindE (parseSensitives h (KafkaProperties src)) (\<lambda>sensitives.
        Inr (VList [VMap [''bootstrap_servers'' \<mapsto> VStr (BootstrapServers src),
                           ''schema_registry_url'' \<mapsto> VStr (SchemaRegistryURL src),
                           ''property'' \<mapsto> VList sensitives]])))"

definition parseSnowflakeSource :: "helpers \<Rightarrow> Source option \<Rightarrow> error + tfval" where
  "parseSnowflakeSource h source =
    (case source of
       None \<Rightarrow> Inl (ErrorsNew ''Source is null'')
     | Some src \<Rightarrow>
        bindE (parseLoginCredentialsProviderConfig h (Source.CredentialsProvider src))
          (\<lambda>credentialsProvider.
        Inr (VList [VMap [''url'' \<mapsto> VStr (URL src),
                           ''warehouse'' \<mapsto> VStr (Warehouse src),
                           ''database'' \<mapsto> VStr (Database src),
                           ''schema'' \<mapsto> VStr (Schema src),
                           ''credentials_provider'' \<mapsto> VList [VMap credentialsProvider]]])))"

definition flatternMaskingRules :: "MaskingRule list \<Rightarrow> tfval" where
  "flatternMaskingRules maskingRules =
    VList (map (\<lambda>maskingRule.
      (let single = Map.empty;
           single =
             (if MaskingRule.Type maskingRule = ''filter''
              then single(''filter'' \<mapsto>
                     VList [VMap [''expression'' \<mapsto> VStr (Expression maskingRule)]])
              else single);
           single =
             (if MaskingRule.Type maskingRule = ''mask''
              then single(''mask'' \<mapsto>
                     VList [VMap [''column'' \<mapsto> VStr (Column maskingRule),
                                  ''expression'' \<mapsto> VStr (Expression maskingRule)]])
              else single)
       in VMap single)) maskingRules)"

definition flattenAccessRules :: "helpers \<Rightarrow> AccessRule list \<Rightarrow> tfval" where
  "flattenAccessRules h accessRules =
    VList (map (\<lambda>accessRule.
      VMap [''resource'' \<mapsto> VStr (Resource accessRule),
            ''principals'' \<mapsto> flattenPrincipalIds h (Principals accessRule),
            ''masking_rule'' \<mapsto> flatternMaskingRules (MaskingRules accessRule)]) accessRules)"

text \<open>
  One block of \<^verbatim>\<open>resourceSourceRead\<close>: parse, return the error of the parse, else
  write the block under its key.
\<close>

definition setParsed ::
  "ResourceData \<Rightarrow> string \<Rightarrow> error + tfval \<Rightarrow> ResourceData \<times> error option" where
  "setParsed d key parsed =
    (case parsed of Inl err \<Rightarrow> (d, Some err) | Inr v \<Rightarrow> dSet d key v)"

definition resourceSourceRead ::
  "helpers \<Rightarrow> Client \<Rightarrow> ResourceData \<Rightarrow> ResourceData \<times> error option" where
  "resourceSourceRead h c d =
    (case GetSource c (Id d) of
       Inl err \<Rightarrow> (d, Some err)
     | Inr None \<Rightarrow> (SetId d [], None)
     | Inr (Some source) \<Rightarrow>
        andThen (dSet d ''name'' (VStr (Source.Name source))) (\<lambda>d.
        andThen (dSet d ''description'' (VStr (Source.Description source))) (\<lambda>d.
        andThen (if Source.Type source = ''s3''
                 then setParsed d ''s3'' (parseS3Source (Some source)) else (d, None)) (\<lambda>d.
        andThen (if Source.Type source = ''s3a''
                 then setParsed d ''s3a'' (parseS3ASource (Some source)) else (d, None)) (\<lambda>d.
        andThen (if Source.Type source = ''gcs''
                 then setParsed d ''gcs'' (parseS3Source (Some source)) else (d, None)) (\<lambda>d.
        andThen (if Source.Type source = ''local''
                 then setParsed d ''local'' (parseLocalSource (Some source)) else (d, None)) (\<lambda>d.
        andThen (if Source.Type source = ''hdfs''
                 then setParsed d ''hdfs'' (parseLocalSource (Some source)) else (d, None)) (\<lambda>d.
        andThen (if Source.Type source = ''jdbc''
                 then setParsed d ''jdbc'' (parseJDBCSource h (Some source)) else (d, None)) (\<lambda>d.
        andThen (if Source.Type source = ''hive''
                 then setParsed d ''hive'' (parseHiveSource (Some source)) else (d, None)) (\<lambda>d.
        andThen (if Source.Type source = ''bigquery''
                 then setParsed d ''big_query'' (parseBigQuerySource (Some source))
                 else (d, None)) (\<lambda>d.
        andThen (if Source.Type source = ''kafka''
                 then setParsed d ''kafka'' (parseKafkaSource h (Some source)) else (d, None)) (\<lambda>d.
        andThen (if Source.Type source = ''snowflake''
                 then setParsed d ''snowflake'' (parseSnowflakeSource h (Some source))
                 else (d, None)) (\<lambda>d.
        andThen (dSet d ''labels'' (VList (map VStr (Source.Labels source)))) (\<lambda>d.
        andThen (dSet d ''attribute'' (flattenAttributes h (Source.Attributes source))) (\<lambda>d.
        dSet d ''access_rule''
          (flattenAccessRules h (Source.AccessRules source)))))))))))))))))"

section \<open>resource\_source.go: the composer\<close>

text \<open>
  \<^verbatim>\<open>composeFileFormat\<close>: the type assertion on \<^verbatim>\<open>file_format\<close> panics on a
  value that is not a string. For the csv format each optional field is set by a comma-ok
  assertion, and stays nil when the assertion fails.
\<close>

definition composeFileFormat :: "tfmap \<Rightarrow> error + FileFormat" where
  "composeFileFormat d =
    bindE (assertString (index d ''file_format'')) (\<lambda>file_format.
    let fileFormat = zeroFileFormat \<lparr> FileFormat.Type := file_format \<rparr> in
    if index d ''file_format'' = VStr ''csv'' then
      Inr (fileFormat
            \<lparr> Compression := okString (index d ''compression''),
              DateFormat := okString (index d ''date_format''),
              EmptyValue := okString (index d ''empty_value''),
              IgnoreLeadingWhiteSpace := okBool (index d ''ignore_leading_whitespace''),
              IgnoreTrailingWhiteSpace := okBool (index d ''ignore_trailing_whitespace''),
              IncludeHeader := okBool (index d ''include_header''),
              QuoteAll := okBool (index d ''quote_all''),
              Sep := okString (index d ''field_separator''),
              TimestampFormat := okString (index d ''timestamp_format''),
              LineSep := okString (index d ''line_separator'') \<rparr>)
    else Inr fileFormat)"

definition composeFilterMaskingRule :: "tfmap \<Rightarrow> error + MaskingRule" where
  "composeFilterMaskingRule d =
    bindE (assertString (index d ''expression'')) (\<lambda>expression.
    Inr \<lparr> MaskingRule.Type = ''filter'', Expression = expression, Column = [] \<rparr>)"

definition composeMaskMaskingRule :: "tfmap \<Rightarrow> error + MaskingRule" where
  "composeMaskMaskingRule d =
    bindE (assertString (index d ''column'')) (\<lambda>column.
    bindE (assertString (index d ''expression'')) (\<lambda>expression.
    Inr \<lparr> MaskingRule.Type = ''mask'', Expression = expression, Column = column \<rparr>))"

text \<open>
  \<^verbatim>\<open>val, _ := x.(map[string]interface{})\<close>: the map, or the nil map (which reads as
  empty) when the assertion fails.
\<close>

definition mapOrNil :: "tfval \<Rightarrow> tfmap" where
  "mapOrNil x = (case x of VMap m \<Rightarrow> m | _ \<Rightarrow> Map.empty)"

fun expandMaskingRules :: "tfval list \<Rightarrow> error + MaskingRule list" where
  "expandMaskingRules [] = Inr []"
| "expandMaskingRules (maskingRule # rest) =
    (let val = mapOrNil maskingRule in
     bindE (case expandSingleMap (index val ''filter'') of
              Inr filterMaskingRule \<Rightarrow>
                bindE (composeFilterMaskingRule filterMaskingRule) (\<lambda>parsed. Inr [parsed])
            | Inl _ \<Rightarrow> Inr []) (\<lambda>filters.
     bindE (case expandSingleMap (index val ''mask'') of
              Inr maskMaskingRule \<Rightarrow>
                bindE (composeMaskMaskingRule maskMaskingRule) (\<lambda>parsed. Inr [parsed])
            | Inl _ \<Rightarrow> Inr []) (\<lambda>masks.
     bindE (expandMaskingRules rest) (\<lambda>res.
     Inr (filters @ masks @ res)))))"

fun expandAccessRules :: "helpers \<Rightarrow> tfval list \<Rightarrow> error + AccessRule list" where
  "expandAccessRules h [] = Inr []"
| "expandAccessRules h (accessRule # rest) =
    (let val = mapOrNil accessRule in
     bindE (assertList (index val ''principals'')) (\<lambda>ps.
     bindE (expandPrincipalIds h ps) (\<lambda>principals.
     bindE (assertList (index val ''masking_rule'')) (\<lambda>ms.
     bindE (expandMaskingRules ms) (\<lambda>maskingRules.
     bindE (assertString (index val ''resource'')) (\<lambda>resource.
     bindE (expandAccessRules h rest) (\<lambda>res.
     Inr (\<lparr> Resource = resource, Principals = principals, MaskingRules = maskingRules \<rparr>
          # res))))))))"

text \<open>
  The fields every branch of \<^verbatim>\<open>composeSource\<close> sets the same way: name,
  description, labels, attributes and access rules.
\<close>

definition commonSource ::
  "helpers \<Rightarrow> ResourceData \<Rightarrow> AccessRule list \<Rightarrow> string \<Rightarrow> error + Source" where
  "commonSource h d accessRules adt_type =
    bindE (assertString (dGet d ''name'')) (\<lambda>name.
    bindE (assertString (dGet d ''description'')) (\<lambda>description.
    Inr (zeroSource
          \<lparr> Source.Name := name, Source.Description := description,
            Source.Type := adt_type, Source.Labels := expandLabels h d,
            Source.Attributes := expandAttributes h d,
            Source.AccessRules := accessRules \<rparr>)))"

text \<open>
  The body of each branch of \<^verbatim>\<open>composeSource\<close>, given the map of its block. The
  branches of local and hdfs have the same text up to the discriminator and share one
  definition. The assertions on the fields of the block and on name and description all
  end in the same panic, so their order within the struct literal does not show.
\<close>

definition composeSource_s3 ::
  "helpers \<Rightarrow> ResourceData \<Rightarrow> AccessRule list \<Rightarrow> tfmap \<Rightarrow> error + Source" where
  "composeSource_s3 h d accessRules s3 =
    bindE (composeFileFormat s3) (\<lambda>fileFormat.
    bindE (commonSource h d accessRules ''s3'') (\<lambda>source.
    bindE (assertString (index s3 ''bucket'')) (\<lambda>bucket.
    bindE (assertString (index s3 ''path'')) (\<lambda>path.
    Inr (source\<lparr> Bucket := bucket, Path := path, Source.FileFormat := Some fileFormat \<rparr>)))))"

definition composeSource_s3a ::
  "helpers \<Rightarrow> ResourceData \<Rightarrow> AccessRule list \<Rightarrow> tfmap \<Rightarrow> error + Source" where
  "composeSource_s3a h d accessRules s3a =
    bindE (composeFileFormat s3a) (\<lambda>fileFormat.
    bindE (commonSource h d accessRules ''s3a'') (\<lambda>source.
    bindE (assertString (index s3a ''bucket'')) (\<lambda>bucket.
    bindE (assertString (index s3a ''path'')) (\<lambda>path.
    bindE (assertString (index s3a ''endpoint'')) (\<lambda>endpoint.
    bindE (assertString (index s3a ''access_key'')) (\<lambda>access_key.
    bindE (assertString (index s3a ''secret_key'')) (\<lambda>secret_key.
    Inr (source\<lparr> Bucket := bucket, Path := path, Endpoint := endpoint,
                 AccessKey := access_key, SecretKey := secret_key,
                 Source.FileFormat := Some fileFormat \<rparr>))))))))"

definition composeSource_jdbc ::
  "helpers \<Rightarrow> ResourceData \<Rightarrow> AccessRule list \<Rightarrow> tfmap \<Rightarrow> error + Source" where
  "composeSource_jdbc h d accessRules jdbc =
    bindE (expandSingleMap (index jdbc ''credentials_provider'')) (\<lambda>credentialsProviderMap.
    bindE (composeLoginCredentialsProviderConfig h credentialsProviderMap)
      (\<lambda>credentialsProvider.
    bindE (commonSource h d accessRules ''jdbc'') (\<lambda>source.
    bindE (assertString (index jdbc ''url'')) (\<lambda>url.
    bindE (assertString (index jdbc ''schema'')) (\<lambda>schema.
    Inr (source\<lparr> URL := url, Schema := schema,
                 Source.CredentialsProvider := credentialsProvider \<rparr>))))))"

definition composeSource_hive ::
  "helpers \<Rightarrow> ResourceData \<Rightarrow> AccessRule list \<Rightarrow> tfmap \<Rightarrow> error + Source" where
  "composeSource_hive h d accessRules hive =
    bindE (commonSource h d accessRules ''hive'') (\<lambda>source.
    bindE (assertString (index hive ''database'')) (\<lambda>database.
    Inr (source\<lparr> Database := database \<rparr>)))"

definition composeSource_bigQuery ::
  "helpers \<Rightarrow> ResourceData \<Rightarrow> AccessRule list \<Rightarrow> tfmap \<Rightarrow> error + Source" where
  "composeSource_bigQuery h d accessRules bigQuery =
    bindE (commonSource h d accessRules ''bigquery'') (\<lambda>source.
    bindE (assertString (index bigQuery ''path'')) (\<lambda>path.
    Inr (source\<lparr> Path := path \<rparr>)))"

definition composeSource_gcs ::
  "helpers \<Rightarrow> ResourceData \<Rightarrow> AccessRule list \<Rightarrow> tfmap \<Rightarrow> error + Source" where
  "composeSource_gcs h d accessRules gcs =
    bindE (composeFileFormat gcs) (\<lambda>fileFormat.
    bindE (commonSource h d accessRules ''gcs'') (\<lambda>source.
    bindE (assertString (index gcs ''bucket'')) (\<lambda>bucket.
    bindE (assertString (index gcs ''path'')) (\<lambda>path.
    Inr (source\<lparr> Bucket := bucket, Path := path, Source.FileFormat := Some fileFormat \<rparr>)))))"

definition composeSource_local ::
  "helpers \<Rightarrow> ResourceData \<Rightarrow> AccessRule list \<Rightarrow> string \<Rightarrow> tfmap \<Rightarrow> error + Source" where
  "composeSource_local h d accessRules adt_type local =
    bindE (composeFileFormat local) (\<lambda>fileFormat.
    bindE (commonSource h d accessRules adt_type) (\<lambda>source.
    bindE (assertString (index local ''path'')) (\<lambda>path.
    Inr (source\<lparr> Path := path, Source.FileFormat := Some fileFormat \<rparr>))))"

text \<open>
  The loop of the kafka branch over the \<^verbatim>\<open>property\<close> array: an element that is
  not a map is an error, the error of the helper is returned, and the helper's result is
  dereferenced.
\<close>

fun composeSensitives :: "helpers \<Rightarrow> tfval list \<Rightarrow> error + SensitiveAttribute list" where
  "composeSensitives h [] = Inr []"
| "composeSensitives h (v # rest) =
    (case v of
       VMap prop \<Rightarrow>
        bindE (composeSensitiveAttribute h prop) (\<lambda>sa.
        bindE (case sa of None \<Rightarrow> Inl Panic | Some x \<Rightarrow> Inr x) (\<lambda>x.
        bindE (composeSensitives h rest) (\<lambda>sensitives.
        Inr (x # sensitives))))
     | _ \<Rightarrow> Inl (FmtErrorf ''Kafka Properties Value is not a map interfaces. Value: %v.'' v))"

definition composeSource_kafka ::
  "helpers \<Rightarrow> ResourceData \<Rightarrow> AccessRule list \<Rightarrow> tfmap \<Rightarrow> error + Source" where
  "composeSource_kafka h d accessRules kafka =
    (case index kafka ''property'' of
       VList array \<Rightarrow>
        bindE (composeSensitives h array) (\<lambda>sensitives.
        bindE (commonSource h d accessRules ''kafka'') (\<lambda>source.
        bindE (assertString (index kafka ''bootstrap_servers'')) (\<lambda>bootstrap_servers.
        bindE (assertString (index kafka ''schema_registry_url'')) (\<lambda>schema_registry_url.
        Inr (source\<lparr> BootstrapServers := bootstrap_servers,
                     SchemaRegistryURL := schema_registry_url,
                     KafkaProperties := sensitives \<rparr>)))))
     | value \<Rightarrow>
        Inl (FmtErrorf ''Kafka Properties Value is not an array. Value: %v'' value))"

definition composeSource_snowflake ::
  "helpers \<Rightarrow> ResourceData \<Rightarrow> AccessRule list \<Rightarrow> tfmap \<Rightarrow> error + Source" where
  "composeSource_snowflake h d accessRules snowflake =
    bindE (expandSingleMap (index snowflake ''credentials_provider''))
      (\<lambda>credentialsProviderMap.
    bindE (composeLoginCredentialsProviderConfig h credentialsProviderMap)
      (\<lambda>credentialsProvider.
    bindE (commonSource h d accessRules ''snowflake'') (\<lambda>source.
    bindE (assertString (index snowflake ''url'')) (\<lambda>url.
    bindE (assertString (index snowflake ''schema'')) (\<lambda>schema.
    bindE (assertString (index snowflake ''warehouse'')) (\<lambda>warehouse.
    bindE (assertString (index snowflake ''database'')) (\<lambda>database.
    Inr (source\<lparr> URL := url, Schema := schema, Warehouse := warehouse,
                 Database := database,
                 Source.CredentialsProvider := credentialsProvider \<rparr>))))))))"

text \<open>
  \<^verbatim>\<open>composeSource\<close>: the access rules first, then the ten blocks in the order of the
  source text; \<^verbatim>\<open>if m, _ := expandSingleMap(d.Get(key)); m != nil\<close> enters the
  branch exactly when \<^verbatim>\<open>expandSingleMap\<close> returns a map. The result
  \<^verbatim>\<open>(&source, nil)\<close> is \<open>Inr\<close>, \<^verbatim>\<open>(nil, err)\<close> is \<open>Inl\<close>.
\<close>

definition composeSource :: "helpers \<Rightarrow> ResourceData \<Rightarrow> error + Source" where
  "composeSource h d =
    bindE (assertList (dGet d ''access_rule'')) (\<lambda>rules.
    bindE (expandAccessRules h rules) (\<lambda>accessRules.
    (case expandSingleMap (dGet d ''s3'') of
       Inr s3 \<Rightarrow> composeSource_s3 h d accessRules s3
     | Inl _ \<Rightarrow>
    (case expandSingleMap (dGet d ''s3a'') of
       Inr s3a \<Rightarrow> composeSource_s3a h d accessRules s3a
     | Inl _ \<Rightarrow>
    (case expandSingleMap (dGet d ''jdbc'') of
       Inr jdbc \<Rightarrow> composeSource_jdbc h d accessRules jdbc
     | Inl _ \<Rightarrow>
    (case expandSingleMap (dGet d ''hive'') of
       Inr hive \<Rightarrow> composeSource_hive h d accessRules hive
     | Inl _ \<Rightarrow>
    (case expandSingleMap (dGet d ''big_query'') of
       Inr bigQuery \<Rightarrow> composeSource_bigQuery h d accessRules bigQuery
     | Inl _ \<Rightarrow>
    (case expandSingleMap (dGet d ''gcs'') of
       Inr gcs \<Rightarrow> composeSource_gcs h d accessRules gcs
     | Inl _ \<Rightarrow>
    (case expandSingleMap (dGet d ''local'') of
       Inr local \<Rightarrow> composeSource_local h d accessRules ''local'' local
     | Inl _ \<Rightarrow>
    (case expandSingleMap (dGet d ''hdfs'') of
       Inr hdfs \<Rightarrow> composeSource_local h d accessRules ''hdfs'' hdfs
     | Inl _ \<Rightarrow>
    (case expandSingleMap (dGet d ''kafka'') of
       Inr kafka \<Rightarrow> composeSource_kafka h d accessRules kafka
     | Inl _ \<Rightarrow>
    (case expandSingleMap (dGet d ''snowflake'') of
       Inr snowflake \<Rightarrow> composeSource_snowflake h d accessRules snowflake
     | Inl _ \<Rightarrow> Inl (ErrorsNew ''Invalid source type'')))))))))))))"

section \<open>The role tables read off the two chains\<close>


definition toFrontendTable :: "(string \<times> string) list" where
  "toFrontendTable =
    [(''adminattributes'', ''admin_attributes''),
     (''adminbranchperms'', ''admin_branch_perms''),
     (''admingroups'', ''admin_groups''),
     (''adminprojects'', ''admin_projects''),
     (''adminschedules'', ''admin_schedules''),
     (''adminsystem'', ''admin_system''),
     (''adminusers'', ''admin_users''),
     (''adminwebhooks'', ''admin_webhooks''),
     (''author'', ''author''),
     (''editprojects'', ''edit_projects''),
     (''runcaching'', ''run_caching''),
     (''runevent_store'', ''run_event_store''),
     (''runfeaturegen'', ''run_featuregen''),
     (''runmonitoring'', ''run_monitoring''),
     (''superuser'', ''super_user''),
     (''viewreports'', ''view_reports'')]"

section \<open>Notions used to state the properties of the source resource\<close>

text \<open>
  The discriminator values that \<^verbatim>\<open>resourceSourceRead\<close> compares against, in the
  order of its blocks.
\<close>

definition sourceTags :: "string list" where
  "sourceTags =
    [''s3'', ''s3a'', ''gcs'', ''local'', ''hdfs'', ''jdbc'', ''hive'', ''bigquery'',
     ''kafka'', ''snowflake'']"

text \<open>
  A variant block is populated when \<^verbatim>\<open>expandSingleMap\<close> finds a map in it, which
  is the test of every branch of \<^verbatim>\<open>composeSource\<close>. The first populated block is
  sought in the declared order of the schema, and each block has its discriminator.
\<close>

definition populated :: "ResourceData \<Rightarrow> string \<Rightarrow> bool" where
  "populated d key = (case expandSingleMap (dGet d key) of Inr m \<Rightarrow> True | Inl e \<Rightarrow> False)"

definition firstPopulated :: "ResourceData \<Rightarrow> string option" where
  "firstPopulated d = find (populated d) ExactlyOneOf"



text \<open>
  Labels and attributes are read by helpers that see the whole configuration; to compare
  two results whatever those helpers read, the labels and attributes of a result are
  replaced by given ones.
\<close>

definition withLabels :: "string list \<Rightarrow> Attribute list \<Rightarrow> error + Source \<Rightarrow> error + Source" where
  "withLabels ls as r =
    (case r of
       Inl e \<Rightarrow> Inl e
     | Inr src \<Rightarrow> Inr (src\<lparr> Source.Labels := ls, Source.Attributes := as \<rparr>))"

section \<open>Instances for the closed examples\<close>

text \<open>
  The closed examples below need some collaborators to run against: helpers that return
  empty results, a client that answers every request with fixed results, and a fresh
  resource data with a given schema, id and values.
\<close>

definition exampleHelpers :: helpers where
  "exampleHelpers =
    \<lparr> expandLabels = (\<lambda>d. []),
      expandAttributes = (\<lambda>d. []),
      flattenAttributes = (\<lambda>as. VList []),
      expandPrincipalIds = (\<lambda>ps. Inr []),
      flattenPrincipalIds = (\<lambda>ps. VList []),
      composeLoginCredentialsProviderConfig = (\<lambda>m. Inr None),
      parseLoginCredentialsProviderConfig = (\<lambda>p. Inr Map.empty),
      composeSensitiveAttribute = (\<lambda>m. Inr None),
      parseSensitiveAttribute = (\<lambda>a. Inr Map.empty) \<rparr>"

definition fixedClient ::
  "(error + Entity option) \<Rightarrow> (error + Source option) \<Rightarrow> (error + Cluster option) \<Rightarrow> Client"
  where
  "fixedClient e s c =
    \<lparr> GetEntity = (\<lambda>id. e), GetSource = (\<lambda>id. s), FindCluster = (\<lambda>name. c) \<rparr>"

definition resourceData ::
  "(string \<Rightarrow> ValueType option) \<Rightarrow> string \<Rightarrow> (string \<times> tfval) list \<Rightarrow> ResourceData" where
  "resourceData sch ident vals = \<lparr> Id = ident, schema = sch, attrs = map_of vals \<rparr>"

text \<open>Example records and configurations.\<close>

definition compositeEntity123 :: Entity where
  "compositeEntity123 =
    zeroEntity \<lparr> Entity.ID := 42, Entity.Name := ''household'',
      Entity.Type := ''composite'', Entity.Entities := Some [1, 2, 3] \<rparr>"

definition baseEntityConfig :: ResourceData where
  "baseEntityConfig =
    resourceData ResourceEntity_Schema []
      [(''name'', VStr ''customer''), (''default_column'', VStr ''customer_id'')]"

definition compositeEntityConfig :: ResourceData where
  "compositeEntityConfig =
    resourceData ResourceEntity_Schema []
      [(''name'', VStr ''household''), (''entities'', VList [VStr ''1'', VStr ''2''])]"







definition emptySourceConfig :: ResourceData where
  "emptySourceConfig =
    resourceData ResourceSource_Schema [] [(''name'', VStr ''nothing'')]"

definition ftpSource :: Source where
  "ftpSource = zeroSource \<lparr> Source.ID := 7, Source.Name := ''legacy'', Source.Type := ''ftp'' \<rparr>"

definition azureSource :: Source where
  "azureSource = zeroSource \<lparr> Source.ID := 8, Source.Name := ''blob'', Source.Type := ''azure'' \<rparr>"

section \<open>Basic facts about the sequencing combinators\<close>

lemma andThen_None [simp]: "andThen (d, None) rest = rest d"
  by (simp add: andThen_def)

lemma andThen_Some [simp]: "andThen (d, Some e) rest = (d, Some e)"
  by (simp add: andThen_def)

lemma bindE_Inr [simp]: "bindE (Inr x) f = f x"
  by (simp add: bindE_def)

lemma bindE_Inl [simp]: "bindE (Inl e) f = Inl e"
  by (simp add: bindE_def)

lemmas example_data_defs =
  resourceData_def fixedClient_def exampleHelpers_def dGet_def
  ResourceEntity_Schema_def ResourceSource_Schema_def DataSourceCluster_Schema_def

section \<open>Role mapping: properties\<close>

lemma mapRolesToBackend_loop_step:
  "mapRolesToBackend_loop vs (x # xs) =
    mapRolesToBackend_loop (vs @ mapRolesToBackend_loop [] [x]) xs"
  by simp

lemma mapRolesToBackend_loop_acc:
  "mapRolesToBackend_loop vs xs = vs @ mapRolesToBackend_loop [] xs"
proof (induction xs arbitrary: vs)
  case Nil
  show ?case by simp
next
  case (Cons x xs)
  have "mapRolesToBackend_loop vs (x # xs) =
      mapRolesToBackend_loop (vs @ mapRolesToBackend_loop [] [x]) xs"
    by (rule mapRolesToBackend_loop_step)
  also have "\<dots> = (vs @ mapRolesToBackend_loop [] [x]) @ mapRolesToBackend_loop [] xs"
    by (rule Cons.IH)
  finally have whole: "mapRolesToBackend_loop vs (x # xs) =
      vs @ mapRolesToBackend_loop [] [x] @ mapRolesToBackend_loop [] xs"
    by simp
  have "mapRolesToBackend_loop [] (x # xs) =
      mapRolesToBackend_loop ([] @ mapRolesToBackend_loop [] [x]) xs"
    by (rule mapRolesToBackend_loop_step)
  also have "\<dots> = ([] @ mapRolesToBackend_loop [] [x]) @ mapRolesToBackend_loop [] xs"
    by (rule Cons.IH)
  finally have tail: "mapRolesToBackend_loop [] (x # xs) =
      mapRolesToBackend_loop [] [x] @ mapRolesToBackend_loop [] xs"
    by simp
  show ?case
    unfolding whole tail ..
qed

lemma mapRolesToBackend_Cons:
  "mapRolesToBackend (x # xs) = mapRolesToBackend [x] @ mapRolesToBackend xs"
proof -
  have "mapRolesToBackend_loop [] (x # xs) =
      mapRolesToBackend_loop ([] @ mapRolesToBackend_loop [] [x]) xs"
    by (rule mapRolesToBackend_loop_step)
  also have "\<dots> = ([] @ mapRolesToBackend_loop [] [x]) @ mapRolesToBackend_loop [] xs"
    by (rule mapRolesToBackend_loop_acc)
  finally show ?thesis
    by (simp add: mapRolesToBackend_def)
qed



lemma mapRolesToFrontend_loop_step:
  "mapRolesToFrontend_loop vs (x # xs) =
    mapRolesToFrontend_loop (vs @ mapRolesToFrontend_loop [] [x]) xs"
  by simp

lemma mapRolesToFrontend_loop_acc:
  "mapRolesToFrontend_loop vs xs = vs @ mapRolesToFrontend_loop [] xs"
proof (induction xs arbitrary: vs)
  case Nil
  show ?case by simp
next
  case (Cons x xs)
  have "mapRolesToFrontend_loop vs (x # xs) =
      mapRolesToFrontend_loop (vs @ mapRolesToFrontend_loop [] [x]) xs"
    by (rule mapRolesToFrontend_loop_step)
  also have "\<dots> = (vs @ mapRolesToFrontend_loop [] [x]) @ mapRolesToFrontend_loop [] xs"
    by (rule Cons.IH)
  finally have whole: "mapRolesToFrontend_loop vs (x # xs) =
      vs @ mapRolesToFrontend_loop [] [x] @ mapRolesToFrontend_loop [] xs"
    by simp
  have "mapRolesToFrontend_loop [] (x # xs) =
      mapRolesToFrontend_loop ([] @ mapRolesToFrontend_loop [] [x]) xs"
    by (rule mapRolesToFrontend_loop_step)
  also have "\<dots> = ([] @ mapRolesToFrontend_loop [] [x]) @ mapRolesToFrontend_loop [] xs"
    by (rule Cons.IH)
  finally have tail: "mapRolesToFrontend_loop [] (x # xs) =
      mapRolesToFrontend_loop [] [x] @ mapRolesToFrontend_loop [] xs"
    by simp
  show ?case
    unfolding whole tail ..
qed

lemma mapRolesToFrontend_Cons:
  "mapRolesToFrontend (x # xs) = mapRolesToFrontend [x] @ mapRolesToFrontend xs"
proof -
  have "mapRolesToFrontend_loop [] (x # xs) =
      mapRolesToFrontend_loop ([] @ mapRolesToFrontend_loop [] [x]) xs"
    by (rule mapRolesToFrontend_loop_step)
  also have "\<dots> = ([] @ mapRolesToFrontend_loop [] [x]) @ mapRolesToFrontend_loop [] xs"
    by (rule mapRolesToFrontend_loop_acc)
  finally show ?thesis
    by (simp add: mapRolesToFrontend_def)
qed

lemma mapRolesToFrontend_single:
  "mapRolesToFrontend [r] =
    (case map_of toFrontendTable (Role.Type r) of None \<Rightarrow> [] | Some t \<Rightarrow> [t])"
  by (simp add: mapRolesToFrontend_def toFrontendTable_def)

lemma mapRolesToFrontend_table:
  "mapRolesToFrontend rs =
    List.map_filter (map_of toFrontendTable) (map Role.Type rs)"
proof (induction rs)
  case Nil
  show ?case by (simp add: mapRolesToFrontend_def List.map_filter_simps)
next
  case (Cons r rs)
  show ?case
    unfolding mapRolesToFrontend_Cons [of r rs] Cons.IH mapRolesToFrontend_single
    by (simp add: List.map_filter_simps split: option.split)
qed




lemma roundtrip_single_other_token:
  "t \<in> set validRoles \<Longrightarrow> t \<noteq> ''run_event_store'' \<Longrightarrow>
    mapRolesToFrontend (mapRolesToBackend [t]) = [t]"
  by (auto simp: validRoles_def mapRolesToBackend_def mapRolesToFrontend_def)

lemma mapRolesToFrontend_append:
  "mapRolesToFrontend (xs @ ys) = mapRolesToFrontend xs @ mapRolesToFrontend ys"
  by (simp add: mapRolesToFrontend_table List.map_filter_def)

lemma roundtrip_other_tokens:
  "set xs \<subseteq> set validRoles - {''run_event_store''} \<Longrightarrow>
    mapRolesToFrontend (mapRolesToBackend xs) = xs"
proof (induction xs)
  case Nil
  show ?case by (simp add: mapRolesToBackend_def mapRolesToFrontend_def)
next
  case (Cons x xs)
  then have x: "x \<in> set validRoles" "x \<noteq> ''run_event_store''"
    and rest: "mapRolesToFrontend (mapRolesToBackend xs) = xs"
    by auto
  show ?case
    unfolding mapRolesToBackend_Cons [of x xs] mapRolesToFrontend_append
    by (simp add: roundtrip_single_other_token [OF x] rest)
qed

text \<open>
  C1. The round trip loses \<^verbatim>\<open>run_event_store\<close>: \<^verbatim>\<open>mapRolesToBackend\<close> sends it
  to \<^verbatim>\<open>runeventstore\<close>, which the chain of \<^verbatim>\<open>mapRolesToFrontend\<close> does not
  know (it compares against \<^verbatim>\<open>runevent_store\<close>), so the token is dropped on the
  way back.
\<close>

theorem roundtrip_loses_run_event_store:
  "''run_event_store'' \<in> set validRoles
   \<and> mapRolesToBackend [''run_event_store''] = [Role ''runeventstore'']
   \<and> mapRolesToFrontend (mapRolesToBackend [''run_event_store'']) = []"
  by (simp add: validRoles_def mapRolesToBackend_def mapRolesToFrontend_def)

theorem roundtrip_loses_run_event_store_witness:
  "mapRolesToFrontend (mapRolesToBackend [''run_event_store'']) \<noteq> [''run_event_store'']"
proof -
  from roundtrip_loses_run_event_store
  have "mapRolesToFrontend (mapRolesToBackend [''run_event_store'']) = []"
    by blast
  then show ?thesis
    by simp
qed

section \<open>Identifier lists\<close>

lemma expandIdentifierList_loop_acc:
  "expandIdentifierList_loop vs xs = vs @ expandIdentifierList_loop [] xs"
proof (induction xs arbitrary: vs)
  case Nil
  show ?case by simp
next
  case (Cons x xs)
  show ?case
  proof (cases "okString x")
    case None
    then show ?thesis using Cons.IH [of vs] by simp
  next
    case (Some val)
    then show ?thesis
      using Cons.IH [of vs] Cons.IH [of "vs @ [fst (Atoi val)]"] Cons.IH [of "[fst (Atoi val)]"]
      by simp
  qed
qed

lemmas Atoi_defs = Atoi_def ParseInt_def ParseUint_def digitOf_def maxUint64_def

lemma identifierList_loop_acc:
  "identifierList_loop vs xs = vs @ map Itoa xs"
  by (induction xs arbitrary: vs) simp_all

lemma identifierList_map: "identifierList xs = map Itoa xs"
  by (simp add: identifierList_def identifierList_loop_acc)

lemma Itoa_123: "Itoa 1 = ''1''" "Itoa 2 = ''2''" "Itoa 3 = ''3''"
  by (simp_all add: Itoa_def formatDecimal.simps digits_def)

lemma digitOf_digits: "k < 10 \<Longrightarrow> digitOf (digits ! k) = Some k"
proof -
  assume "k < 10"
  then have "k \<in> {0, 1, 2, 3, 4, 5, 6, 7, 8, 9}" by auto
  then show ?thesis
    by (auto simp: digitOf_def digits_def)
qed

lemma ParseUint_loop_append:
  "ParseUint_loop acc (xs @ ys) =
    (case ParseUint_loop acc xs of (v, None) \<Rightarrow> ParseUint_loop v ys | (v, Some e) \<Rightarrow> (v, Some e))"
  by (induction xs arbitrary: acc) (simp_all split: option.split)

lemma ParseUint_loop_digit:
  "k < 10 \<Longrightarrow> acc * 10 + k \<le> maxUint64 \<Longrightarrow>
    ParseUint_loop acc [digits ! k] = (acc * 10 + k, None)"
  by (simp add: digitOf_digits maxUint64_def)

lemma ParseUint_loop_formatDecimal:
  "acc * 10 ^ length (formatDecimal n) + n \<le> maxUint64 \<Longrightarrow>
    ParseUint_loop acc (formatDecimal n) = (acc * 10 ^ length (formatDecimal n) + n, None)"
proof (induction n arbitrary: acc rule: formatDecimal.induct)
  case (1 n)
  show ?case
  proof (cases "n < 10")
    case True
    then have f: "formatDecimal n = [digits ! n]"
      by (simp add: formatDecimal.simps)
    from 1(2) True show ?thesis
      unfolding f by (simp add: ParseUint_loop_digit del: ParseUint_loop.simps)
  next
    case False
    then have f: "formatDecimal n = formatDecimal (n div 10) @ [digits ! (n mod 10)]"
      by (subst formatDecimal.simps) simp
    let ?k = "length (formatDecimal (n div 10))"
    have len: "length (formatDecimal n) = Suc ?k"
      unfolding f by simp
    have split: "acc * 10 ^ Suc ?k + n = (acc * 10 ^ ?k + n div 10) * 10 + n mod 10"
      by (simp add: algebra_simps)
    from 1(2) have bound: "(acc * 10 ^ ?k + n div 10) * 10 + n mod 10 \<le> maxUint64"
      unfolding len split .
    have drop: "\<And>x r m :: nat. x * 10 + r \<le> m \<Longrightarrow> x \<le> m"
      by arith
    from bound have pre: "acc * 10 ^ ?k + n div 10 \<le> maxUint64"
      by (rule drop)
    have ih: "ParseUint_loop acc (formatDecimal (n div 10)) = (acc * 10 ^ ?k + n div 10, None)"
      using 1(1) [OF False pre] .
    have last: "ParseUint_loop (acc * 10 ^ ?k + n div 10) [digits ! (n mod 10)]
        = ((acc * 10 ^ ?k + n div 10) * 10 + n mod 10, None)"
      by (rule ParseUint_loop_digit) (use bound in simp_all)
    show ?thesis
      unfolding len split
      by (subst f) (simp add: ParseUint_loop_append ih last del: ParseUint_loop.simps)
  qed
qed

lemma formatDecimal_not_Nil: "formatDecimal n \<noteq> []"
  by (subst formatDecimal.simps) simp

lemma hd_formatDecimal: "\<exists>k < 10. hd (formatDecimal n) = digits ! k"
proof (induction n rule: formatDecimal.induct)
  case (1 n)
  show ?case
  proof (cases "n < 10")
    case True
    then show ?thesis by (subst formatDecimal.simps) auto
  next
    case False
    then have "hd (formatDecimal n) = hd (formatDecimal (n div 10))"
      by (subst formatDecimal.simps) (simp add: formatDecimal_not_Nil)
    with 1 [OF False] show ?thesis by simp
  qed
qed

lemma digits_not_sign: "k < 10 \<Longrightarrow> digits ! k \<noteq> CHR ''-'' \<and> digits ! k \<noteq> CHR ''+''"
proof -
  assume "k < 10"
  then have "k \<in> {0, 1, 2, 3, 4, 5, 6, 7, 8, 9}" by auto
  then show ?thesis by (auto simp: digits_def)
qed

lemma ParseUint_formatDecimal:
  "n \<le> maxUint64 \<Longrightarrow> ParseUint (formatDecimal n) = (n, None)"
  using ParseUint_loop_formatDecimal [of 0 n]
  by (simp add: ParseUint_def formatDecimal_not_Nil)

lemma Atoi_Itoa:
  assumes "- 9223372036854775808 \<le> i" and "i \<le> 9223372036854775807"
  shows "Atoi (Itoa i) = (i, None)"
proof (cases "i < 0")
  case True
  with assms have n: "nat (- i) \<le> maxUint64" "nat (- i) \<le> 9223372036854775808"
    by (simp_all add: maxUint64_def)
  from True n show ?thesis
    by (simp add: Atoi_def ParseInt_def Itoa_def ParseUint_formatDecimal)
next
  case False
  with assms have n: "nat i \<le> maxUint64" "nat i < 9223372036854775808"
    by (simp_all add: maxUint64_def)
  obtain k where k: "k < 10" "hd (formatDecimal (nat i)) = digits ! k"
    using hd_formatDecimal by blast
  from False n digits_not_sign [OF k(1)] show ?thesis
    by (simp add: Atoi_def ParseInt_def Itoa_def ParseUint_formatDecimal
        formatDecimal_not_Nil k(2))
qed

lemma Itoa_not_Nil: "Itoa i \<noteq> []"
  by (simp add: Itoa_def formatDecimal_not_Nil)

lemma expandIdentifierList_Cons:
  "expandIdentifierList (x # xs) = expandIdentifierList [x] @ expandIdentifierList xs"
  unfolding expandIdentifierList_def
  using expandIdentifierList_loop_acc [of "expandIdentifierList_loop [] [x]" xs]
  by simp

text \<open>
  The identifiers that \<^verbatim>\<open>identifierList\<close> writes are read back by
  \<^verbatim>\<open>expandIdentifierList\<close>, for every list of 64-bit integers.
\<close>

lemma expandIdentifierList_identifierList:
  assumes "\<forall>i \<in> set ns. - 9223372036854775808 \<le> i \<and> i \<le> 9223372036854775807"
  shows "expandIdentifierList (map VStr (identifierList ns)) = ns"
  using assms
proof (induction ns)
  case Nil
  show ?case by (simp add: identifierList_map expandIdentifierList_def)
next
  case (Cons i ns)
  then have i: "Atoi (Itoa i) = (i, None)"
    and rest: "expandIdentifierList (map VStr (identifierList ns)) = ns"
    by (simp_all add: Atoi_Itoa)
  have "expandIdentifierList (map VStr (identifierList (i # ns))) =
      expandIdentifierList [VStr (Itoa i)] @ expandIdentifierList (map VStr (identifierList ns))"
    using expandIdentifierList_Cons [of "VStr (Itoa i)" "map VStr (map Itoa ns)"]
    by (simp add: identifierList_map)
  also have "expandIdentifierList [VStr (Itoa i)] = [i]"
    by (simp add: expandIdentifierList_def okString_def Itoa_not_Nil i)
  finally show ?case
    by (simp add: rest)
qed

text \<open>
  C5, as the code has it. \<^verbatim>\<open>expandIdentifierList\<close> returns no error and skips
  exactly the entries that are not strings or are the empty string. Every other entry
  contributes one element, in input order: the value \<^verbatim>\<open>Atoi\<close> returns for it,
  which is its integer value when the string is parseable. An unparseable string is not
  skipped.
\<close>

theorem expandIdentifierList_keeps_every_string:
  "expandIdentifierList xs =
    map (\<lambda>s. fst (Atoi s)) (filter (\<lambda>s. s \<noteq> []) (List.map_filter okString xs))"
proof (induction xs)
  case Nil
  show ?case by (simp add: expandIdentifierList_def List.map_filter_simps)
next
  case (Cons x xs)
  have "expandIdentifierList (x # xs) = expandIdentifierList [x] @ expandIdentifierList xs"
    by (rule expandIdentifierList_Cons)
  then show ?case
    unfolding Cons.IH
    by (simp add: expandIdentifierList_def List.map_filter_simps split: option.split)
qed

theorem expandIdentifierList_keeps_every_string_witness:
  "expandIdentifierList [VStr ''12'', VStr [], VInt 3, VStr ''7x'', VStr ''5''] = [12, 0, 5]"
  using expandIdentifierList_keeps_every_string
    [of "[VStr ''12'', VStr [], VInt 3, VStr ''7x'', VStr ''5'']"]
  by (simp add: List.map_filter_simps okString_def Atoi_defs)

text \<open>
  C5 as stated fails: the string \<^verbatim>\<open>abc\<close> is not parseable as an integer, and
  it is not skipped; the list gets the 0 that \<^verbatim>\<open>Atoi\<close> returns beside its error.
\<close>

theorem expandIdentifierList_unparseable_counterexample:
  "snd (Atoi ''abc'') = Some ErrSyntax \<and> expandIdentifierList [VStr ''abc''] = [0]"
  by (simp add: expandIdentifierList_def okString_def Atoi_defs)

section \<open>The entity resource\<close>

text \<open>
  C7. Reading a backend entity whose \<^verbatim>\<open>Entities\<close> is \<^verbatim>\<open>[1,2,3]\<close> into the
  resource data of the entity resource succeeds and leaves \<^verbatim>\<open>entities\<close> as the
  list of the strings 1, 2, 3, with \<^verbatim>\<open>default_column\<close> and \<^verbatim>\<open>required_type\<close>
  written as nil; this holds whatever the other fields of the entity are.
\<close>

theorem resourceEntityRead_composite:
  assumes "GetEntity c (Id d) = Inr (Some e)"
    and "Entity.Entities e = Some [1, 2, 3]"
    and "schema d = ResourceEntity_Schema"
  shows "snd (resourceEntityRead h c d) = None
    \<and> attrs (fst (resourceEntityRead h c d)) ''entities''
        = Some (VList [VStr ''1'', VStr ''2'', VStr ''3''])
    \<and> attrs (fst (resourceEntityRead h c d)) ''default_column'' = Some VNil
    \<and> attrs (fst (resourceEntityRead h c d)) ''required_type'' = Some VNil"
  using assms
  by (simp add: resourceEntityRead_def dSet_def ResourceEntity_Schema_def deref_def
      identifierList_map Itoa_123 split: option.split)

theorem resourceEntityRead_composite_witness:
  "Entity.Type compositeEntity123 = ''composite''
   \<and> Entity.Entities compositeEntity123 = Some [1, 2, 3]
   \<and> snd (resourceEntityRead exampleHelpers
        (fixedClient (Inr (Some compositeEntity123)) (Inr None) (Inr None))
        (resourceData ResourceEntity_Schema ''42'' [])) = None
   \<and> attrs (fst (resourceEntityRead exampleHelpers
        (fixedClient (Inr (Some compositeEntity123)) (Inr None) (Inr None))
        (resourceData ResourceEntity_Schema ''42'' []))) ''entities''
      = Some (VList [VStr ''1'', VStr ''2'', VStr ''3''])"
proof -
  have a: "GetEntity (fixedClient (Inr (Some compositeEntity123)) (Inr None) (Inr None))
      (Id (resourceData ResourceEntity_Schema ''42'' [])) = Inr (Some compositeEntity123)"
    by (simp add: fixedClient_def)
  have b: "Entity.Entities compositeEntity123 = Some [1, 2, 3]"
    by (simp add: compositeEntity123_def)
  have c: "schema (resourceData ResourceEntity_Schema ''42'' []) = ResourceEntity_Schema"
    by (simp add: resourceData_def)
  have t: "Entity.Type compositeEntity123 = ''composite''"
    by (simp add: compositeEntity123_def)
  from resourceEntityRead_composite [OF a b c, of exampleHelpers] b t
  show ?thesis by simp
qed

text \<open>
  Whatever the configuration holds, an entity that \<^verbatim>\<open>buildEntity\<close> returns has
  exactly one variant; when a type assertion on the configuration fails there is no
  entity at all.
\<close>

lemma buildEntity_result:
  assumes "buildEntity h d = Inr e"
  shows "\<exists>dc. dGet d ''default_column'' = VStr dc
    \<and> (if dc \<noteq> []
       then Entity.Type e = ''base'' \<and> Entity.DefaultColumn e = Some dc
         \<and> Entity.Entities e = None
       else Entity.Type e = ''composite'' \<and> Entity.Entities e \<noteq> None
         \<and> Entity.DefaultColumn e = None \<and> Entity.RequiredType e = None)"
proof -
  obtain n where n: "dGet d ''name'' = VStr n"
    using assms by (cases "dGet d ''name''") (simp_all add: buildEntity_def assertString_def)
  obtain ds where ds: "dGet d ''description'' = VStr ds"
    using assms n
    by (cases "dGet d ''description''") (simp_all add: buildEntity_def assertString_def)
  obtain dc where dc: "dGet d ''default_column'' = VStr dc"
    using assms n ds
    by (cases "dGet d ''default_column''")
      (simp_all add: buildEntity_def assertString_def Let_def)
  show ?thesis
  proof (cases "dc = []")
    case True
    obtain es where es: "dGet d ''entities'' = VList es"
      using assms n ds dc True
      by (cases "dGet d ''entities''")
        (simp_all add: buildEntity_def assertString_def assertList_def Let_def)
    from assms n ds dc es True show ?thesis
      by (auto simp: buildEntity_def assertString_def assertList_def zeroEntity_def Let_def)
  next
    case False
    from assms n ds dc False show ?thesis
      by (auto simp: buildEntity_def assertString_def zeroEntity_def dGetOk_def Let_def
          split: if_splits)
  qed
qed

text \<open>
  C10. For a configuration whose \<^verbatim>\<open>name\<close>, \<^verbatim>\<open>description\<close> and
  \<^verbatim>\<open>default_column\<close> read as strings and whose \<^verbatim>\<open>entities\<close> reads as a list
  (what the SDK hands over for the entity schema), \<^verbatim>\<open>buildEntity\<close> returns an entity
  with exactly one variant: a non-empty default column gives type base, the default
  column set and no entities; an empty one gives type composite, the entities set, and
  neither default column nor required type. The type is base or composite.
\<close>

theorem buildEntity_variant:
  assumes "dGet d ''name'' = VStr n"
    and "dGet d ''description'' = VStr ds"
    and "dGet d ''default_column'' = VStr dc"
    and "dGet d ''entities'' = VList es"
  shows "\<exists>e. buildEntity h d = Inr e
    \<and> (if dc \<noteq> []
       then Entity.Type e = ''base'' \<and> Entity.DefaultColumn e = Some dc
         \<and> Entity.Entities e = None
       else Entity.Type e = ''composite''
         \<and> Entity.Entities e = Some (expandIdentifierList es)
         \<and> Entity.DefaultColumn e = None \<and> Entity.RequiredType e = None)
    \<and> (Entity.Type e = ''base'' \<or> Entity.Type e = ''composite'')"
  using assms
  by (simp add: buildEntity_def assertString_def assertList_def zeroEntity_def
      dGetOk_def Let_def)

theorem buildEntity_variant_witness:
  "(\<exists>e. buildEntity exampleHelpers baseEntityConfig = Inr e
        \<and> Entity.Type e = ''base'' \<and> Entity.DefaultColumn e = Some ''customer_id''
        \<and> Entity.Entities e = None)
   \<and> (\<exists>e. buildEntity exampleHelpers compositeEntityConfig = Inr e
        \<and> Entity.Type e = ''composite'' \<and> Entity.Entities e = Some [1, 2]
        \<and> Entity.DefaultColumn e = None \<and> Entity.RequiredType e = None)"
proof -
  have b: "dGet baseEntityConfig ''name'' = VStr ''customer''"
    "dGet baseEntityConfig ''description'' = VStr []"
    "dGet baseEntityConfig ''default_column'' = VStr ''customer_id''"
    "dGet baseEntityConfig ''entities'' = VList []"
    by (simp_all add: baseEntityConfig_def example_data_defs)
  have c: "dGet compositeEntityConfig ''name'' = VStr ''household''"
    "dGet compositeEntityConfig ''description'' = VStr []"
    "dGet compositeEntityConfig ''default_column'' = VStr []"
    "dGet compositeEntityConfig ''entities'' = VList [VStr ''1'', VStr ''2'']"
    by (simp_all add: compositeEntityConfig_def example_data_defs)
  have ids: "expandIdentifierList [VStr ''1'', VStr ''2''] = [1, 2]"
    by (simp add: expandIdentifierList_def okString_def Atoi_defs)
  from buildEntity_variant [OF b, of exampleHelpers]
    buildEntity_variant [OF c, of exampleHelpers] ids
  show ?thesis by auto
qed

section \<open>Reading an object the backend does not have\<close>

text \<open>
  C6. When the client returns no object and no error, each of the three read operations
  returns success and a resource data that differs from the one it got only in the id,
  which is the empty string. (The cluster data source looks the cluster up by the
  configured name, which the SDK hands over as a string.)
\<close>

theorem read_missing_clears_id:
  "(GetEntity c (Id d) = Inr None \<longrightarrow> resourceEntityRead h c d = (d\<lparr>Id := []\<rparr>, None))
   \<and> (GetSource c (Id d) = Inr None \<longrightarrow> resourceSourceRead h c d = (d\<lparr>Id := []\<rparr>, None))
   \<and> (dGet d ''name'' = VStr name \<and> FindCluster c name = Inr None
        \<longrightarrow> dataSourceClusterRead c d = (d\<lparr>Id := []\<rparr>, None))"
  by (simp add: resourceEntityRead_def resourceSourceRead_def dataSourceClusterRead_def
      SetId_def assertString_def)

theorem read_missing_clears_id_witness:
  "resourceEntityRead exampleHelpers (fixedClient (Inr None) (Inr None) (Inr None))
      (resourceData ResourceEntity_Schema ''42'' [(''name'', VStr ''customer'')])
    = (resourceData ResourceEntity_Schema [] [(''name'', VStr ''customer'')], None)
   \<and> resourceSourceRead exampleHelpers (fixedClient (Inr None) (Inr None) (Inr None))
      (resourceData ResourceSource_Schema ''7'' [(''name'', VStr ''events'')])
    = (resourceData ResourceSource_Schema [] [(''name'', VStr ''events'')], None)
   \<and> dataSourceClusterRead (fixedClient (Inr None) (Inr None) (Inr None))
      (resourceData DataSourceCluster_Schema ''3'' [(''name'', VStr ''spark'')])
    = (resourceData DataSourceCluster_Schema [] [(''name'', VStr ''spark'')], None)"
  using read_missing_clears_id
    [where c = "fixedClient (Inr None) (Inr None) (Inr None)"
       and d = "resourceData ResourceEntity_Schema ''42'' [(''name'', VStr ''customer'')]"
       and h = exampleHelpers]
    read_missing_clears_id
    [where c = "fixedClient (Inr None) (Inr None) (Inr None)"
       and d = "resourceData ResourceSource_Schema ''7'' [(''name'', VStr ''events'')]"
       and h = exampleHelpers]
    read_missing_clears_id
    [where c = "fixedClient (Inr None) (Inr None) (Inr None)"
       and d = "resourceData DataSourceCluster_Schema ''3'' [(''name'', VStr ''spark'')]"
       and name = "''spark''" and h = exampleHelpers]
  by (simp add: example_data_defs)

section \<open>The source resource: flattening\<close>

text \<open>
  C2, as the code has it. For a source whose discriminator is none of the ten known tags,
  \<^verbatim>\<open>resourceSourceRead\<close> raises no error for the tag: no variant branch runs, so
  every variant block of the resource data stays as it was; name, description, labels,
  attribute and access\_rule are written and the operation returns success.
\<close>

theorem resourceSourceRead_unknown_tag:
  assumes "GetSource c (Id d) = Inr (Some src)"
    and "Source.Type src \<notin> set sourceTags"
    and "schema d = ResourceSource_Schema"
  shows "snd (resourceSourceRead h c d) = None
    \<and> (\<forall>k \<in> set ExactlyOneOf.
          attrs (fst (resourceSourceRead h c d)) k = attrs d k)
    \<and> attrs (fst (resourceSourceRead h c d)) ''name'' = Some (VStr (Source.Name src))
    \<and> attrs (fst (resourceSourceRead h c d)) ''description''
        = Some (VStr (Source.Description src))
    \<and> attrs (fst (resourceSourceRead h c d)) ''labels''
        = Some (VList (map VStr (Source.Labels src)))
    \<and> attrs (fst (resourceSourceRead h c d)) ''attribute''
        = Some (deref (flattenAttributes h (Source.Attributes src)))
    \<and> attrs (fst (resourceSourceRead h c d)) ''access_rule''
        = Some (deref (flattenAccessRules h (Source.AccessRules src)))"
  using assms
  by (simp add: resourceSourceRead_def sourceTags_def ExactlyOneOf_def dSet_def
      ResourceSource_Schema_def deref_def)

theorem resourceSourceRead_unknown_tag_witness:
  "Source.Type ftpSource = ''ftp''
   \<and> snd (resourceSourceRead exampleHelpers
        (fixedClient (Inr None) (Inr (Some ftpSource)) (Inr None))
        (resourceData ResourceSource_Schema ''7'' [])) = None
   \<and> attrs (fst (resourceSourceRead exampleHelpers
        (fixedClient (Inr None) (Inr (Some ftpSource)) (Inr None))
        (resourceData ResourceSource_Schema ''7'' []))) ''name'' = Some (VStr ''legacy'')"
proof -
  have a: "GetSource (fixedClient (Inr None) (Inr (Some ftpSource)) (Inr None))
      (Id (resourceData ResourceSource_Schema ''7'' [])) = Inr (Some ftpSource)"
    by (simp add: fixedClient_def)
  have b: "Source.Type ftpSource \<notin> set sourceTags"
    by (simp add: ftpSource_def sourceTags_def)
  have c: "schema (resourceData ResourceSource_Schema ''7'' []) = ResourceSource_Schema"
    by (simp add: resourceData_def)
  have n: "Source.Name ftpSource = ''legacy''" "Source.Type ftpSource = ''ftp''"
    by (simp_all add: ftpSource_def)
  from resourceSourceRead_unknown_tag [OF a b c, of exampleHelpers] n
  show ?thesis by simp
qed

text \<open>
  C2 as stated fails: a source of type \<^verbatim>\<open>azure\<close>, which is none of the known tags,
  is read with success, and all ten variant blocks of the fresh resource data are still
  unset afterwards.
\<close>

theorem resourceSourceRead_unknown_tag_counterexample:
  "Source.Type azureSource \<notin> set sourceTags
   \<and> snd (resourceSourceRead exampleHelpers
        (fixedClient (Inr None) (Inr (Some azureSource)) (Inr None))
        (resourceData ResourceSource_Schema ''8'' [])) = None
   \<and> map (attrs (fst (resourceSourceRead exampleHelpers
        (fixedClient (Inr None) (Inr (Some azureSource)) (Inr None))
        (resourceData ResourceSource_Schema ''8'' [])))) ExactlyOneOf
      = replicate 10 None"
  by (simp add: resourceSourceRead_def azureSource_def zeroSource_def sourceTags_def
      ExactlyOneOf_def fixedClient_def resourceData_def exampleHelpers_def dSet_def
      ResourceSource_Schema_def deref_def flattenAccessRules_def
      numeral_eq_Suc)

section \<open>The source resource: composing\<close>

lemma not_populated_Inl:
  "\<not> populated d key \<Longrightarrow> \<exists>e. expandSingleMap (dGet d key) = Inl e"
  by (cases "expandSingleMap (dGet d key)") (simp_all add: populated_def)



text \<open>
  C4. When none of the ten variant blocks is populated, \<^verbatim>\<open>composeSource\<close> never
  returns a record. It returns the error of the access rules when their expansion fails
  (that expansion comes first in the code) and the error
  \<^verbatim>\<open>Invalid source type\<close> in every other case.
\<close>

theorem composeSource_no_variant:
  assumes "firstPopulated d = None"
  shows "(\<exists>e. composeSource h d = Inl e)
    \<and> (\<forall>rules accessRules.
          dGet d ''access_rule'' = VList rules \<longrightarrow> expandAccessRules h rules = Inr accessRules
          \<longrightarrow> composeSource h d = Inl (ErrorsNew ''Invalid source type''))"
proof -
  from assms have none: "\<forall>k \<in> set ExactlyOneOf. \<not> populated d k"
    by (simp add: firstPopulated_def find_None_iff)
  have unp: "\<And>k. k \<in> set ExactlyOneOf \<Longrightarrow> \<exists>e. expandSingleMap (dGet d k) = Inl e"
    using none not_populated_Inl by blast
  obtain e1 e2 e3 e4 e5 e6 e7 e8 e9 e10 where blocks:
    "expandSingleMap (dGet d ''s3'') = Inl e1"
    "expandSingleMap (dGet d ''s3a'') = Inl e2"
    "expandSingleMap (dGet d ''jdbc'') = Inl e3"
    "expandSingleMap (dGet d ''hive'') = Inl e4"
    "expandSingleMap (dGet d ''big_query'') = Inl e5"
    "expandSingleMap (dGet d ''gcs'') = Inl e6"
    "expandSingleMap (dGet d ''local'') = Inl e7"
    "expandSingleMap (dGet d ''hdfs'') = Inl e8"
    "expandSingleMap (dGet d ''kafka'') = Inl e9"
    "expandSingleMap (dGet d ''snowflake'') = Inl e10"
    using unp [of "''s3''"] unp [of "''s3a''"] unp [of "''jdbc''"] unp [of "''hive''"]
      unp [of "''big_query''"] unp [of "''gcs''"] unp [of "''local''"] unp [of "''hdfs''"]
      unp [of "''kafka''"] unp [of "''snowflake''"]
    by (auto simp: ExactlyOneOf_def)
  have shape: "composeSource h d =
      bindE (assertList (dGet d ''access_rule'')) (\<lambda>rules.
      bindE (expandAccessRules h rules) (\<lambda>accessRules.
      Inl (ErrorsNew ''Invalid source type'')))"
    by (simp add: composeSource_def blocks)
  show ?thesis
    unfolding shape
    by (auto simp: bindE_def assertList_def split: sum.splits tfval.splits)
qed

theorem composeSource_no_variant_witness:
  "firstPopulated emptySourceConfig = None
   \<and> composeSource exampleHelpers emptySourceConfig = Inl (ErrorsNew ''Invalid source type'')"
proof -
  have none: "firstPopulated emptySourceConfig = None"
    by (simp add: firstPopulated_def ExactlyOneOf_def populated_def expandSingleMap_def
        emptySourceConfig_def example_data_defs)
  have rules: "dGet emptySourceConfig ''access_rule'' = VList []"
    by (simp add: emptySourceConfig_def example_data_defs)
  have expand: "expandAccessRules exampleHelpers [] = Inr []"
    by simp
  from composeSource_no_variant [OF none, of exampleHelpers] rules expand none
  show ?thesis by blast
qed




lemma withLabels_simps [simp]:
  "withLabels ls as (Inl e) = Inl e"
  "withLabels ls as (Inr src) = Inr (src\<lparr> Source.Labels := ls, Source.Attributes := as \<rparr>)"
  by (simp_all add: withLabels_def)










end
